theory Spec2Isabelle
  imports Main
begin

section \<open>Data model\<close>

text \<open>
  \<^verbatim>\<open>export type Todo = { id: number; name: string; completed: boolean;
                       description?: string; priority?: number }\<close>
  The field \<open>id\<close> is written \<open>id'\<close> (\<open>id\<close> is HOL's identity function). Ids are the
  numbers a JSON body carries, compared with \<open>===\<close>; they are modelled as integers
  (the ids a server hands out are safe integers, see \<open>isSafeInteger\<close> below).
\<close>

record Todo =
  id' :: int
  name :: string
  completed :: bool
  description :: "string option"
  priority :: "int option"

text \<open>
  Thrown values. \<open>APIError\<close> is the class of the API module
  (\<^verbatim>\<open>class APIError extends Error\<close>, built only in \<open>handleResponse\<close>);
  \<open>Error\<close> is the plain \<^verbatim>\<open>new Error(message)\<close>; a \<open>rejection\<close> is what the
  platform's \<open>fetch\<close> and \<open>response.json()\<close> reject with.
\<close>

datatype rejection = TypeError string | SyntaxError string

datatype error = Error string | APIError string | Rejected rejection

text \<open>A settled promise: \<open>Inl\<close> is a rejection (a throw past an \<open>await\<close>), \<open>Inr\<close> the value.\<close>

type_synonym 'a settled = "error + 'a"

text \<open>The values handed to \<open>JSON.stringify\<close> and \<open>console.log\<close>.\<close>

datatype json = JNull | JBool bool | JNumber int | JString string
  | JArray "json list" | JObject "(string \<times> json) list"

text \<open>
  The serialiser is the platform's; the text it produces is kept symbolic, as the
  constructor applied to the value it was given.
\<close>

datatype json_text = JSON_stringify json

section \<open>The platform: fetch, responses, console\<close>

text \<open>
  The second argument of \<open>fetch\<close>. An absent \<open>method\<close> (here \<open>http_method\<close>) means \<open>GET\<close>.
\<close>

record RequestInit =
  http_method :: "string option"
  headers :: "(string \<times> string) list"
  body :: "json_text option"

definition no_init :: RequestInit where
  "no_init = \<lparr>http_method = None, headers = [], body = None\<rparr>"

text \<open>A request as it leaves the client.\<close>

record request =
  req_url :: string
  req_method :: string
  req_headers :: "(string \<times> string) list"
  req_body :: "json_text option"

text \<open>
  A \<open>Response\<close> as the code reads it: \<open>response.ok\<close>, \<open>response.status\<close> and the
  promise \<open>response.json()\<close>, which rejects when the body is not JSON text. The type
  parameter is the \<open>T\<close> of \<^verbatim>\<open>handleResponse<T>\<close>.
\<close>

record 'a response =
  ok :: bool
  status :: nat
  json :: "rejection + 'a"

text \<open>What the pending \<open>fetch\<close> will settle with: a network failure or a response.\<close>

type_synonym 'a fetch_outcome = "rejection + 'a response"

datatype logged = Value json | Caught error

datatype console_entry = console_log logged | console_error logged

text \<open>Everything outside the React state that the code writes to.\<close>

record env =
  console :: "console_entry list"
  sent :: "request list"

definition log_line :: "console_entry \<Rightarrow> env \<Rightarrow> env" where
  "log_line l e = e\<lparr>console := console e @ [l]\<rparr>"

text \<open>
  \<open>fetch(url, init)\<close> puts the request on the wire; the outcome is the environment's
  choice and is passed in.
\<close>

definition fetch :: "string \<Rightarrow> RequestInit \<Rightarrow> 'a fetch_outcome \<Rightarrow> env \<Rightarrow> 'a fetch_outcome \<times> env" where
  "fetch u init outcome e =
     (outcome,
      e\<lparr>sent := sent e @
         [\<lparr>req_url = u,
           req_method = (case http_method init of None \<Rightarrow> ''GET'' | Some m \<Rightarrow> m),
           req_headers = headers init,
           req_body = body init\<rparr>]\<rparr>)"

text \<open>
  Numbers inside template literals (\<^verbatim>\<open>${todoId}\<close>, \<^verbatim>\<open>${response.status}\<close>). On the safe
  integers, from \<open>-(2^53 - 1)\<close> to \<open>2^53 - 1\<close>, JavaScript prints the decimal digits, with a
  minus sign when negative, and so do \<open>string_of_nat\<close> and \<open>string_of_int\<close>. Beyond them
  JavaScript prints the shortest digits that read back as the same double, and from
  \<open>1e21\<close> an exponent; the two functions stand for the code only on safe integers, and
  what is stated about a printed id is stated under \<open>isSafeInteger\<close>.
\<close>

definition MAX_SAFE_INTEGER :: int where
  "MAX_SAFE_INTEGER = 9007199254740991"

definition isSafeInteger :: "int \<Rightarrow> bool" where
  "isSafeInteger i \<longleftrightarrow> - MAX_SAFE_INTEGER \<le> i \<and> i \<le> MAX_SAFE_INTEGER"

fun string_of_nat :: "nat \<Rightarrow> string" where
  "string_of_nat n =
     (if n < 10 then [''0123456789'' ! n]
      else string_of_nat (n div 10) @ [''0123456789'' ! (n mod 10)])"

declare string_of_nat.simps [simp del]

definition string_of_int :: "int \<Rightarrow> string" where
  "string_of_int i = (if i < 0 then ''-'' @ string_of_nat (nat (- i)) else string_of_nat (nat i))"




section \<open>The API module\<close>

definition API_URL :: string where
  "API_URL = ''https://eli-workshop.vercel.app/api/users/nerv01/todos''"

definition handleResponse :: "'a response \<Rightarrow> 'a settled" where
  "handleResponse response =
     (if \<not> ok response then Inl (APIError (''API failed '' @ string_of_nat (status response)))
      else (case json response of Inl r \<Rightarrow> Inl (Rejected r) | Inr v \<Rightarrow> Inr v))"

text \<open>\<open>const response = await fetch(...); return handleResponse(response)\<close>\<close>

definition await_response :: "'a fetch_outcome \<Rightarrow> 'a settled" where
  "await_response outcome =
     (case outcome of Inl r \<Rightarrow> Inl (Rejected r) | Inr response \<Rightarrow> handleResponse response)"

definition todoApi_fetchTodos :: "Todo list fetch_outcome \<Rightarrow> env \<Rightarrow> Todo list settled \<times> env" where
  "todoApi_fetchTodos outcome e =
     (let (response, e') = fetch API_URL no_init outcome e
      in (await_response response, e'))"

definition todoApi_createTodo :: "string \<Rightarrow> Todo fetch_outcome \<Rightarrow> env \<Rightarrow> Todo settled \<times> env" where
  "todoApi_createTodo newTodo outcome e =
     (let body = JObject [(''name'', JString newTodo)];
          (response, e') =
            fetch API_URL
              \<lparr>http_method = Some ''POST'',
               headers = [(''Content-type'', ''application/json'')],
               body = Some (JSON_stringify body)\<rparr> outcome e
      in (await_response response, e'))"

definition todoApi_fetchTodo :: "int \<Rightarrow> Todo fetch_outcome \<Rightarrow> env \<Rightarrow> Todo settled \<times> env" where
  "todoApi_fetchTodo todoId outcome e =
     (let (response, e') = fetch (API_URL @ ''/'' @ string_of_int todoId) no_init outcome e
      in (await_response response, e'))"

definition todoApi_deleteTodo :: "int \<Rightarrow> 'a fetch_outcome \<Rightarrow> env \<Rightarrow> 'a settled \<times> env" where
  "todoApi_deleteTodo todoId outcome e =
     (let (response, e') =
            fetch (API_URL @ ''/'' @ string_of_int todoId)
              \<lparr>http_method = Some ''DELETE'', headers = [], body = None\<rparr> outcome e
      in (await_response response, e'))"

definition todoApi_toggleTodo :: "int \<Rightarrow> bool \<Rightarrow> Todo fetch_outcome \<Rightarrow> env \<Rightarrow> Todo settled \<times> env" where
  "todoApi_toggleTodo todoId isCompleted outcome e =
     (let body = JObject [(''completed'', JBool isCompleted)];
          e1 = log_line (console_log (Value body)) e;
          (response, e') =
            fetch (API_URL @ ''/'' @ string_of_int todoId)
              \<lparr>http_method = Some ''PATCH'',
               headers = [(''Content-type'', ''application/json'')],
               body = Some (JSON_stringify body)\<rparr> outcome e1
      in (await_response response, e'))"

section \<open>The hook \<open>useTodos\<close>\<close>

text \<open>
  The three \<open>useState\<close> cells; \<open>todos\<close>, \<open>isLoading\<close> and \<open>error\<close> are also the data the
  hook returns. \<open>null\<close> is \<open>None\<close>.
\<close>

record hook_state =
  todos :: "Todo list"
  isLoading :: bool
  error :: "string option"

definition initial_state :: hook_state where
  "initial_state = \<lparr>todos = [], isLoading = False, error = None\<rparr>"

text \<open>A state setter takes the next value or a function of the previous value.\<close>

datatype 'a SetStateAction = Next 'a | Updater "'a \<Rightarrow> 'a"

fun resolve :: "'a SetStateAction \<Rightarrow> 'a \<Rightarrow> 'a" where
  "resolve (Next v) prev = v"
| "resolve (Updater f) prev = f prev"

definition setTodos :: "Todo list SetStateAction \<Rightarrow> hook_state \<Rightarrow> hook_state" where
  "setTodos a s = s\<lparr>todos := resolve a (todos s)\<rparr>"

definition setIsLoading :: "bool SetStateAction \<Rightarrow> hook_state \<Rightarrow> hook_state" where
  "setIsLoading a s = s\<lparr>isLoading := resolve a (isLoading s)\<rparr>"

definition setError :: "string option SetStateAction \<Rightarrow> hook_state \<Rightarrow> hook_state" where
  "setError a s = s\<lparr>error := resolve a (error s)\<rparr>"

text \<open>
  Each operation is an \<open>async\<close> function with one \<open>await\<close>. It runs in two parts:
  \<open>_begin\<close> is the code up to the \<open>await\<close> (the request is on the wire, the promise
  pending); \<open>_settle\<close> is the rest (\<open>try\<close> after the \<open>await\<close>, or \<open>catch\<close>, then
  \<open>finally\<close>), run on the state as it is when the promise settles, which other
  operations may have changed in between. \<open>_begin\<close> also returns what the pending promise
  will settle with, fixed by the outcome the environment gives to \<open>fetch\<close>; \<open>_settle\<close> takes
  it as its argument. The plain name runs both with nothing between them.
\<close>

definition fetchTodos_begin ::
  "Todo list fetch_outcome \<Rightarrow> hook_state \<times> env \<Rightarrow> Todo list settled \<times> hook_state \<times> env" where
  "fetchTodos_begin outcome w =
     (let (s, e) = w;
          s1 = setError (Next None) s;
          s2 = setIsLoading (Next True) s1;
          (data, e') = todoApi_fetchTodos outcome e
      in (data, s2, e'))"

definition fetchTodos_settle :: "Todo list settled \<Rightarrow> hook_state \<times> env \<Rightarrow> hook_state \<times> env" where
  "fetchTodos_settle r w =
     (let (s, e) = w;
          (s', e') =
            (case r of
               Inr data \<Rightarrow> (setTodos (Next data) s, e)
             | Inl err \<Rightarrow>
                 (setError (Next (Some ''failed to load todos'')) s,
                  log_line (console_error (Caught err)) e))
      in (setIsLoading (Next False) s', e'))"

definition fetchTodos :: "Todo list fetch_outcome \<Rightarrow> hook_state \<times> env \<Rightarrow> hook_state \<times> env" where
  "fetchTodos outcome w = (let (r, w') = fetchTodos_begin outcome w in fetchTodos_settle r w')"

definition addTodo_updater :: "Todo \<Rightarrow> Todo list \<Rightarrow> Todo list" where
  "addTodo_updater newTodo = (\<lambda>prevTodos. prevTodos @ [newTodo])"

definition addTodo_begin ::
  "string \<Rightarrow> Todo fetch_outcome \<Rightarrow> hook_state \<times> env \<Rightarrow> Todo settled \<times> hook_state \<times> env" where
  "addTodo_begin todoName outcome w =
     (let (s, e) = w;
          s1 = setError (Next None) s;
          s2 = setIsLoading (Next True) s1;
          (newTodo, e') = todoApi_createTodo todoName outcome e
      in (newTodo, s2, e'))"

definition addTodo_settle :: "Todo settled \<Rightarrow> hook_state \<times> env \<Rightarrow> hook_state \<times> env" where
  "addTodo_settle r w =
     (let (s, e) = w;
          (s', e') =
            (case r of
               Inr newTodo \<Rightarrow> (setTodos (Updater (addTodo_updater newTodo)) s, e)
             | Inl err \<Rightarrow>
                 (setError (Next (Some ''failed to add todos'')) s,
                  log_line (console_error (Caught err)) e))
      in (setIsLoading (Next False) s', e'))"

definition addTodo :: "string \<Rightarrow> Todo fetch_outcome \<Rightarrow> hook_state \<times> env \<Rightarrow> hook_state \<times> env" where
  "addTodo todoName outcome w =
     (let (r, w') = addTodo_begin todoName outcome w in addTodo_settle r w')"

text \<open>
  The updater of \<open>deleteTodo\<close> does not name its argument: it filters \<open>todos\<close>, the
  variable of the render that created the closure.
\<close>

definition deleteTodo_updater :: "Todo list \<Rightarrow> int \<Rightarrow> Todo list \<Rightarrow> Todo list" where
  "deleteTodo_updater todos_closure todoId = (\<lambda>_. filter (\<lambda>todo. id' todo \<noteq> todoId) todos_closure)"

definition deleteTodo_begin ::
  "int \<Rightarrow> 'a fetch_outcome \<Rightarrow> hook_state \<times> env \<Rightarrow> 'a settled \<times> hook_state \<times> env" where
  "deleteTodo_begin todoId outcome w =
     (let (s, e) = w;
          s1 = setError (Next None) s;
          s2 = setIsLoading (Next True) s1;
          (r, e') = todoApi_deleteTodo todoId outcome e
      in (r, s2, e'))"

definition deleteTodo_settle ::
  "Todo list \<Rightarrow> int \<Rightarrow> 'a settled \<Rightarrow> hook_state \<times> env \<Rightarrow> hook_state \<times> env" where
  "deleteTodo_settle todos_closure todoId r w =
     (let (s, e) = w;
          (s', e') =
            (case r of
               Inr _ \<Rightarrow> (setTodos (Updater (deleteTodo_updater todos_closure todoId)) s, e)
             | Inl err \<Rightarrow>
                 (setError (Next (Some ''failed to delete todo'')) s,
                  log_line (console_error (Caught err)) e))
      in (setIsLoading (Next False) s', e'))"

text \<open>Called from the render of the state it starts in, the closure holds that state's list.\<close>

definition deleteTodo :: "int \<Rightarrow> 'a fetch_outcome \<Rightarrow> hook_state \<times> env \<Rightarrow> hook_state \<times> env" where
  "deleteTodo todoId outcome w =
     (let (r, w') = deleteTodo_begin todoId outcome w
      in deleteTodo_settle (todos (fst w)) todoId r w')"

definition toggleTodo_updater :: "Todo \<Rightarrow> Todo \<Rightarrow> Todo list \<Rightarrow> Todo list" where
  "toggleTodo_updater todo updatedTodo =
     (\<lambda>prevTodos. map (\<lambda>prevTodo. if id' prevTodo = id' todo then updatedTodo else prevTodo) prevTodos)"

definition toggleTodo_begin ::
  "Todo \<Rightarrow> Todo fetch_outcome \<Rightarrow> hook_state \<times> env \<Rightarrow> Todo settled \<times> hook_state \<times> env" where
  "toggleTodo_begin todo outcome w =
     (let (s, e) = w;
          s1 = setError (Next None) s;
          s2 = setIsLoading (Next True) s1;
          (updatedTodo, e') = todoApi_toggleTodo (id' todo) (\<not> completed todo) outcome e
      in (updatedTodo, s2, e'))"

definition toggleTodo_settle :: "Todo \<Rightarrow> Todo settled \<Rightarrow> hook_state \<times> env \<Rightarrow> hook_state \<times> env" where
  "toggleTodo_settle todo r w =
     (let (s, e) = w;
          (s', e') =
            (case r of
               Inr updatedTodo \<Rightarrow> (setTodos (Updater (toggleTodo_updater todo updatedTodo)) s, e)
             | Inl err \<Rightarrow>
                 (setError (Next (Some ''failed to toggle todo'')) s,
                  log_line (console_log (Caught err)) e))
      in (setIsLoading (Next False) s', e'))"

definition toggleTodo :: "Todo \<Rightarrow> Todo fetch_outcome \<Rightarrow> hook_state \<times> env \<Rightarrow> hook_state \<times> env" where
  "toggleTodo todo outcome w =
     (let (r, w') = toggleTodo_begin todo outcome w in toggleTodo_settle todo r w')"

section \<open>The context and its hook\<close>

text \<open>
  \<^verbatim>\<open>createContext<TodosContext | undefined>(undefined)\<close>: the default value is
  \<open>undefined\<close>, written \<open>None\<close>.
\<close>

definition TodosContext_default :: "'c option" where
  "TodosContext_default = None"

text \<open>
  \<open>useContext\<close> reads the value of the nearest enclosing provider (the list holds the
  enclosing providers' values, nearest first) and the default when there is none.
\<close>

fun useContext :: "'c \<Rightarrow> 'c list \<Rightarrow> 'c" where
  "useContext dflt [] = dflt"
| "useContext dflt (v # outer) = v"

definition useTodoContext :: "'c option list \<Rightarrow> error + 'c" where
  "useTodoContext providers =
     (let context = useContext TodosContext_default providers
      in case context of
           None \<Rightarrow> Inl (Error ''nejakej error'')
         | Some c \<Rightarrow> Inr c)"

text \<open>\<^verbatim>\<open><TodosContext.Provider value={todoState}>\<close> around the children.\<close>

definition TodoProvider :: "'c \<Rightarrow> 'c option list \<Rightarrow> 'c option list" where
  "TodoProvider todoState providers = Some todoState # providers"

section \<open>Example data\<close>

definition mk_todo :: "int \<Rightarrow> string \<Rightarrow> bool \<Rightarrow> Todo" where
  "mk_todo i n c = \<lparr>id' = i, name = n, completed = c, description = None, priority = None\<rparr>"

definition env0 :: env where
  "env0 = \<lparr>console = [], sent = []\<rparr>"

definition idle :: "Todo list \<Rightarrow> hook_state" where
  "idle ts = \<lparr>todos = ts, isLoading = False, error = None\<rparr>"

text \<open>A response whose status is 200 and whose body parses to \<open>v\<close>.\<close>

definition ok_response :: "'a \<Rightarrow> 'a response" where
  "ok_response v = \<lparr>ok = True, status = 200, json = Inr v\<rparr>"

text \<open>A 200 response with an empty body: \<open>response.json()\<close> rejects.\<close>

definition empty_body_response :: "Todo response" where
  "empty_body_response =
     \<lparr>ok = True, status = 200, json = Inl (SyntaxError ''Unexpected end of JSON input'')\<rparr>"

section \<open>Unfolding lemmas\<close>

subsection \<open>What each API function returns and sends\<close>

lemma todoApi_fetchTodos_eq:
  "todoApi_fetchTodos outcome e =
     (await_response outcome,
      e\<lparr>sent := sent e @ [\<lparr>req_url = API_URL, req_method = ''GET'', req_headers = [], req_body = None\<rparr>]\<rparr>)"
  by (simp add: todoApi_fetchTodos_def fetch_def no_init_def)

lemma todoApi_createTodo_eq:
  "todoApi_createTodo newTodo outcome e =
     (await_response outcome,
      e\<lparr>sent := sent e @
        [\<lparr>req_url = API_URL, req_method = ''POST'',
          req_headers = [(''Content-type'', ''application/json'')],
          req_body = Some (JSON_stringify (JObject [(''name'', JString newTodo)]))\<rparr>]\<rparr>)"
  by (simp add: todoApi_createTodo_def fetch_def Let_def)

lemma todoApi_fetchTodo_eq:
  "todoApi_fetchTodo todoId outcome e =
     (await_response outcome,
      e\<lparr>sent := sent e @
        [\<lparr>req_url = API_URL @ ''/'' @ string_of_int todoId, req_method = ''GET'',
          req_headers = [], req_body = None\<rparr>]\<rparr>)"
  by (simp add: todoApi_fetchTodo_def fetch_def no_init_def)

lemma todoApi_deleteTodo_eq:
  "todoApi_deleteTodo todoId outcome e =
     (await_response outcome,
      e\<lparr>sent := sent e @
        [\<lparr>req_url = API_URL @ ''/'' @ string_of_int todoId, req_method = ''DELETE'',
          req_headers = [], req_body = None\<rparr>]\<rparr>)"
  by (simp add: todoApi_deleteTodo_def fetch_def)

lemma todoApi_toggleTodo_eq:
  "todoApi_toggleTodo todoId isCompleted outcome e =
     (await_response outcome,
      e\<lparr>console := console e @ [console_log (Value (JObject [(''completed'', JBool isCompleted)]))],
        sent := sent e @
        [\<lparr>req_url = API_URL @ ''/'' @ string_of_int todoId, req_method = ''PATCH'',
          req_headers = [(''Content-type'', ''application/json'')],
          req_body = Some (JSON_stringify (JObject [(''completed'', JBool isCompleted)]))\<rparr>]\<rparr>)"
  by (simp add: todoApi_toggleTodo_def fetch_def log_line_def Let_def)

subsection \<open>The two parts of each hook operation\<close>

lemma fetchTodos_begin_eq:
  "fetchTodos_begin outcome (s, e) =
     (fst (todoApi_fetchTodos outcome e), s\<lparr>isLoading := True, error := None\<rparr>,
      snd (todoApi_fetchTodos outcome e))"
  by (simp add: fetchTodos_begin_def setError_def setIsLoading_def split_def Let_def)

lemma addTodo_begin_eq:
  "addTodo_begin todoName outcome (s, e) =
     (fst (todoApi_createTodo todoName outcome e), s\<lparr>isLoading := True, error := None\<rparr>,
      snd (todoApi_createTodo todoName outcome e))"
  by (simp add: addTodo_begin_def setError_def setIsLoading_def split_def Let_def)

lemma deleteTodo_begin_eq:
  "deleteTodo_begin todoId outcome (s, e) =
     (fst (todoApi_deleteTodo todoId outcome e), s\<lparr>isLoading := True, error := None\<rparr>,
      snd (todoApi_deleteTodo todoId outcome e))"
  by (simp add: deleteTodo_begin_def setError_def setIsLoading_def split_def Let_def)

lemma toggleTodo_begin_eq:
  "toggleTodo_begin todo outcome (s, e) =
     (fst (todoApi_toggleTodo (id' todo) (\<not> completed todo) outcome e),
      s\<lparr>isLoading := True, error := None\<rparr>,
      snd (todoApi_toggleTodo (id' todo) (\<not> completed todo) outcome e))"
  by (simp add: toggleTodo_begin_def setError_def setIsLoading_def split_def Let_def)

lemma fetchTodos_settle_Inl:
  "fetchTodos_settle (Inl err) (s, e) =
     (s\<lparr>isLoading := False, error := Some ''failed to load todos''\<rparr>,
      e\<lparr>console := console e @ [console_error (Caught err)]\<rparr>)"
  by (simp add: fetchTodos_settle_def setError_def setIsLoading_def log_line_def)

lemma fetchTodos_settle_Inr:
  "fetchTodos_settle (Inr data) (s, e) = (s\<lparr>todos := data, isLoading := False\<rparr>, e)"
  by (simp add: fetchTodos_settle_def setTodos_def setIsLoading_def)

lemma addTodo_settle_Inl:
  "addTodo_settle (Inl err) (s, e) =
     (s\<lparr>isLoading := False, error := Some ''failed to add todos''\<rparr>,
      e\<lparr>console := console e @ [console_error (Caught err)]\<rparr>)"
  by (simp add: addTodo_settle_def setError_def setIsLoading_def log_line_def)

lemma addTodo_settle_Inr:
  "addTodo_settle (Inr newTodo) (s, e) =
     (s\<lparr>todos := addTodo_updater newTodo (todos s), isLoading := False\<rparr>, e)"
  by (simp add: addTodo_settle_def setTodos_def setIsLoading_def)

lemma deleteTodo_settle_Inl:
  "deleteTodo_settle todos_closure todoId (Inl err) (s, e) =
     (s\<lparr>isLoading := False, error := Some ''failed to delete todo''\<rparr>,
      e\<lparr>console := console e @ [console_error (Caught err)]\<rparr>)"
  by (simp add: deleteTodo_settle_def setError_def setIsLoading_def log_line_def)

lemma deleteTodo_settle_Inr:
  "deleteTodo_settle todos_closure todoId (Inr v) (s, e) =
     (s\<lparr>todos := deleteTodo_updater todos_closure todoId (todos s), isLoading := False\<rparr>, e)"
  by (simp add: deleteTodo_settle_def setTodos_def setIsLoading_def)

lemma toggleTodo_settle_Inl:
  "toggleTodo_settle todo (Inl err) (s, e) =
     (s\<lparr>isLoading := False, error := Some ''failed to toggle todo''\<rparr>,
      e\<lparr>console := console e @ [console_log (Caught err)]\<rparr>)"
  by (simp add: toggleTodo_settle_def setError_def setIsLoading_def log_line_def)

lemma toggleTodo_settle_Inr:
  "toggleTodo_settle todo (Inr updatedTodo) (s, e) =
     (s\<lparr>todos := toggleTodo_updater todo updatedTodo (todos s), isLoading := False\<rparr>, e)"
  by (simp add: toggleTodo_settle_def setTodos_def setIsLoading_def)

lemma await_response_ok:
  "ok r \<Longrightarrow> json r = Inr v \<Longrightarrow> await_response (Inr r) = Inr v"
  by (simp add: await_response_def handleResponse_def)

subsection \<open>A whole call, and what settling always does\<close>

lemma fetchTodos_eq:
  "fetchTodos outcome (s, e) =
     fetchTodos_settle (fst (todoApi_fetchTodos outcome e))
       (s\<lparr>isLoading := True, error := None\<rparr>, snd (todoApi_fetchTodos outcome e))"
  by (simp add: fetchTodos_def fetchTodos_begin_eq)

lemma addTodo_eq:
  "addTodo todoName outcome (s, e) =
     addTodo_settle (fst (todoApi_createTodo todoName outcome e))
       (s\<lparr>isLoading := True, error := None\<rparr>, snd (todoApi_createTodo todoName outcome e))"
  by (simp add: addTodo_def addTodo_begin_eq)

lemma deleteTodo_eq:
  "deleteTodo todoId outcome (s, e) =
     deleteTodo_settle (todos s) todoId (fst (todoApi_deleteTodo todoId outcome e))
       (s\<lparr>isLoading := True, error := None\<rparr>, snd (todoApi_deleteTodo todoId outcome e))"
  by (simp add: deleteTodo_def deleteTodo_begin_eq)

lemma toggleTodo_eq:
  "toggleTodo todo outcome (s, e) =
     toggleTodo_settle todo (fst (todoApi_toggleTodo (id' todo) (\<not> completed todo) outcome e))
       (s\<lparr>isLoading := True, error := None\<rparr>,
        snd (todoApi_toggleTodo (id' todo) (\<not> completed todo) outcome e))"
  by (simp add: toggleTodo_def toggleTodo_begin_eq)

text \<open>A settle step sends nothing and ends with the loading flag down.\<close>

lemma fetchTodos_settle_sent: "sent (snd (fetchTodos_settle r (s, e))) = sent e"
  by (cases r) (simp_all add: fetchTodos_settle_Inl fetchTodos_settle_Inr)

lemma fetchTodos_settle_isLoading: "isLoading (fst (fetchTodos_settle r (s, e))) = False"
  by (cases r) (simp_all add: fetchTodos_settle_Inl fetchTodos_settle_Inr)

lemma addTodo_settle_sent: "sent (snd (addTodo_settle r (s, e))) = sent e"
  by (cases r) (simp_all add: addTodo_settle_Inl addTodo_settle_Inr)

lemma addTodo_settle_isLoading: "isLoading (fst (addTodo_settle r (s, e))) = False"
  by (cases r) (simp_all add: addTodo_settle_Inl addTodo_settle_Inr)

lemma deleteTodo_settle_sent: "sent (snd (deleteTodo_settle todos_closure todoId r (s, e))) = sent e"
  by (cases r) (simp_all add: deleteTodo_settle_Inl deleteTodo_settle_Inr)

lemma deleteTodo_settle_isLoading: "isLoading (fst (deleteTodo_settle todos_closure todoId r (s, e))) = False"
  by (cases r) (simp_all add: deleteTodo_settle_Inl deleteTodo_settle_Inr)

lemma toggleTodo_settle_sent: "sent (snd (toggleTodo_settle todo r (s, e))) = sent e"
  by (cases r) (simp_all add: toggleTodo_settle_Inl toggleTodo_settle_Inr)

lemma toggleTodo_settle_isLoading: "isLoading (fst (toggleTodo_settle todo r (s, e))) = False"
  by (cases r) (simp_all add: toggleTodo_settle_Inl toggleTodo_settle_Inr)

subsection \<open>\<open>handleResponse\<close>\<close>

lemma handleResponse_Inr_iff:
  "handleResponse r = Inr v \<longleftrightarrow> ok r \<and> json r = Inr v"
  by (simp add: handleResponse_def split: sum.splits)

lemma handleResponse_APIError_iff:
  "handleResponse r = Inl (APIError m) \<longleftrightarrow>
     \<not> ok r \<and> m = ''API failed '' @ string_of_nat (status r)"
  by (auto simp add: handleResponse_def split: sum.splits)

subsection \<open>Printed numbers read back\<close>









section \<open>The claims\<close>

text \<open>
  Claim C1. A successful \<open>toggleTodo(t)\<close> calls \<open>todoApi.toggleTodo(t.id, !t.completed)\<close>: one
  request goes out, a \<open>PATCH\<close> whose JSON body is \<open>{completed: !t.completed}\<close> (to the URL of
  the todo, for a safe integer id). Settling replaces, in the list as it is at that
  moment, every element whose id is \<open>t.id\<close> by the todo the API returned; every other
  element is unchanged and keeps its position.
\<close>

theorem toggleTodo_success:
  assumes "ok response" and "json response = Inr updatedTodo"
  shows
    "(fst (toggleTodo_begin todo (Inr response) (s, e)),
      snd (snd (toggleTodo_begin todo (Inr response) (s, e)))) =
       todoApi_toggleTodo (id' todo) (\<not> completed todo) (Inr response) e \<and>
     fst (toggleTodo_begin todo (Inr response) (s, e)) = Inr updatedTodo \<and>
     length (sent (snd (snd (toggleTodo_begin todo (Inr response) (s, e))))) = Suc (length (sent e)) \<and>
     butlast (sent (snd (snd (toggleTodo_begin todo (Inr response) (s, e))))) = sent e \<and>
     req_method (last (sent (snd (snd (toggleTodo_begin todo (Inr response) (s, e)))))) = ''PATCH'' \<and>
     req_headers (last (sent (snd (snd (toggleTodo_begin todo (Inr response) (s, e)))))) =
       [(''Content-type'', ''application/json'')] \<and>
     req_body (last (sent (snd (snd (toggleTodo_begin todo (Inr response) (s, e)))))) =
       Some (JSON_stringify (JObject [(''completed'', JBool (\<not> completed todo))])) \<and>
     (isSafeInteger (id' todo) \<longrightarrow>
        req_url (last (sent (snd (snd (toggleTodo_begin todo (Inr response) (s, e)))))) =
          API_URL @ ''/'' @ string_of_int (id' todo)) \<and>
     length (todos (fst (toggleTodo_settle todo (Inr updatedTodo) (s', e')))) = length (todos s') \<and>
     (\<forall>i < length (todos s').
        (id' (todos s' ! i) \<noteq> id' todo \<longrightarrow>
           todos (fst (toggleTodo_settle todo (Inr updatedTodo) (s', e'))) ! i = todos s' ! i) \<and>
        (id' (todos s' ! i) = id' todo \<longrightarrow>
           todos (fst (toggleTodo_settle todo (Inr updatedTodo) (s', e'))) ! i = updatedTodo)) \<and>
     todos (fst (toggleTodo todo (Inr response) (s, e))) =
       map (\<lambda>prevTodo. if id' prevTodo = id' todo then updatedTodo else prevTodo) (todos s)"
proof -
  let ?upd = "\<lambda>prevTodo. if id' prevTodo = id' todo then updatedTodo else prevTodo"
  let ?pending = "toggleTodo_begin todo (Inr response) (s, e)"
  have api: "fst (todoApi_toggleTodo (id' todo) (\<not> completed todo) (Inr response) e) = Inr updatedTodo"
    using assms by (simp add: todoApi_toggleTodo_eq await_response_ok)
  have settled: "todos (fst (toggleTodo_settle todo (Inr updatedTodo) (w, x))) = map ?upd (todos w)"
    for w x
    by (simp add: toggleTodo_settle_Inr toggleTodo_updater_def)
  have call: "(fst ?pending, snd (snd ?pending)) =
      todoApi_toggleTodo (id' todo) (\<not> completed todo) (Inr response) e"
    by (simp add: toggleTodo_begin_eq)
  have result: "fst ?pending = Inr updatedTodo"
    using api by (simp add: toggleTodo_begin_eq)
  have request: "sent (snd (snd ?pending)) =
       sent e @
       [\<lparr>req_url = API_URL @ ''/'' @ string_of_int (id' todo), req_method = ''PATCH'',
         req_headers = [(''Content-type'', ''application/json'')],
         req_body = Some (JSON_stringify (JObject [(''completed'', JBool (\<not> completed todo))]))\<rparr>]"
    by (simp add: toggleTodo_begin_eq todoApi_toggleTodo_eq)
  have whole: "todos (fst (toggleTodo todo (Inr response) (s, e))) = map ?upd (todos s)"
    using api by (simp add: toggleTodo_eq settled)
  from call result whole show ?thesis
    by (simp add: settled request)
qed

theorem toggleTodo_success_witness:
  "ok (ok_response (mk_todo 1 ''milk'' True)) \<and>
   json (ok_response (mk_todo 1 ''milk'' True)) = Inr (mk_todo 1 ''milk'' True) \<and>
   isSafeInteger (id' (mk_todo 1 ''milk'' False)) \<and>
   req_body (last (sent (snd (snd (toggleTodo_begin (mk_todo 1 ''milk'' False)
       (Inr (ok_response (mk_todo 1 ''milk'' True)))
       (idle [mk_todo 1 ''milk'' False, mk_todo 2 ''eggs'' False], env0)))))) =
     Some (JSON_stringify (JObject [(''completed'', JBool True)])) \<and>
   req_url (last (sent (snd (snd (toggleTodo_begin (mk_todo 1 ''milk'' False)
       (Inr (ok_response (mk_todo 1 ''milk'' True)))
       (idle [mk_todo 1 ''milk'' False, mk_todo 2 ''eggs'' False], env0)))))) =
     ''https://eli-workshop.vercel.app/api/users/nerv01/todos/1'' \<and>
   todos (fst (toggleTodo (mk_todo 1 ''milk'' False) (Inr (ok_response (mk_todo 1 ''milk'' True)))
       (idle [mk_todo 1 ''milk'' False, mk_todo 2 ''eggs'' False], env0))) =
     [mk_todo 1 ''milk'' True, mk_todo 2 ''eggs'' False]"
proof -
  have h1: "ok (ok_response (mk_todo 1 ''milk'' True))"
    by (simp add: ok_response_def)
  have h2: "json (ok_response (mk_todo 1 ''milk'' True)) = Inr (mk_todo 1 ''milk'' True)"
    by (simp add: ok_response_def)
  have h3: "isSafeInteger (id' (mk_todo 1 ''milk'' False))"
    by (simp add: isSafeInteger_def MAX_SAFE_INTEGER_def mk_todo_def)
  have d: "string_of_int 1 = ''1''" by code_simp
  have i: "id' (mk_todo 1 ''milk'' False) = 1" and c: "\<not> completed (mk_todo 1 ''milk'' False)"
    by (simp_all add: mk_todo_def)
  show ?thesis
    using h1 h2 h3 toggleTodo_success [OF h1 h2,
        where todo = "mk_todo 1 ''milk'' False"
          and s = "idle [mk_todo 1 ''milk'' False, mk_todo 2 ''eggs'' False]" and e = env0
          and s' = "idle []" and e' = env0]
    by (simp add: idle_def i c d API_URL_def) (simp add: mk_todo_def)
qed

text \<open>
  Claim C2. A successful \<open>addTodo(todoName)\<close> sets the list to the previous list followed by
  the todo the API returned: the previous todos are unchanged, in the same order, and the
  new todo is last.
\<close>

theorem addTodo_success:
  assumes "ok response" and "json response = Inr newTodo"
  shows
    "fst (addTodo_begin todoName (Inr response) (s, e)) = Inr newTodo \<and>
     todos (fst (addTodo_settle (Inr newTodo) (s', e'))) = todos s' @ [newTodo] \<and>
     (\<forall>i < length (todos s').
        todos (fst (addTodo_settle (Inr newTodo) (s', e'))) ! i = todos s' ! i) \<and>
     last (todos (fst (addTodo_settle (Inr newTodo) (s', e')))) = newTodo \<and>
     todos (fst (addTodo todoName (Inr response) (s, e))) = todos s @ [newTodo]"
  using assms
  by (simp add: addTodo_begin_eq addTodo_eq todoApi_createTodo_eq await_response_ok
      addTodo_settle_Inr addTodo_updater_def nth_append)

theorem addTodo_success_witness:
  "ok (ok_response (mk_todo 2 ''eggs'' False)) \<and>
   json (ok_response (mk_todo 2 ''eggs'' False)) = Inr (mk_todo 2 ''eggs'' False) \<and>
   todos (fst (addTodo ''eggs'' (Inr (ok_response (mk_todo 2 ''eggs'' False)))
       (idle [mk_todo 1 ''milk'' False], env0))) =
     [mk_todo 1 ''milk'' False, mk_todo 2 ''eggs'' False]"
proof -
  have h1: "ok (ok_response (mk_todo 2 ''eggs'' False))"
    by (simp add: ok_response_def)
  have h2: "json (ok_response (mk_todo 2 ''eggs'' False)) = Inr (mk_todo 2 ''eggs'' False)"
    by (simp add: ok_response_def)
  show ?thesis
    using h1 h2 addTodo_success [OF h1 h2,
        where todoName = "''eggs''" and s = "idle [mk_todo 1 ''milk'' False]" and e = env0
          and s' = "idle []" and e' = env0]
    by (simp add: idle_def)
qed

text \<open>
  Claim C3. Each of \<open>fetchTodos\<close>, \<open>addTodo\<close>, \<open>deleteTodo\<close>, \<open>toggleTodo\<close> has \<open>error\<close> reset to
  \<open>null\<close> while its API call is pending. When the call throws, settling changes the state
  only by setting \<open>error\<close> to the operation's fixed string (and lowering \<open>isLoading\<close> in
  \<open>finally\<close>) and writes the caught value to the console; it sends nothing. A whole call
  sends exactly one request whatever the outcome: there is no retry.
\<close>

theorem useTodos_failure_sets_error_only:
  "error (fst (snd (fetchTodos_begin o1 (s, e)))) = None \<and>
   error (fst (snd (addTodo_begin todoName o2 (s, e)))) = None \<and>
   error (fst (snd (deleteTodo_begin todoId (o3 :: 'b fetch_outcome) (s, e)))) = None \<and>
   error (fst (snd (toggleTodo_begin todo o2 (s, e)))) = None \<and>
   fetchTodos_settle (Inl err) (s', e') =
     (s'\<lparr>error := Some ''failed to load todos'', isLoading := False\<rparr>,
      e'\<lparr>console := console e' @ [console_error (Caught err)]\<rparr>) \<and>
   addTodo_settle (Inl err) (s', e') =
     (s'\<lparr>error := Some ''failed to add todos'', isLoading := False\<rparr>,
      e'\<lparr>console := console e' @ [console_error (Caught err)]\<rparr>) \<and>
   deleteTodo_settle todos_closure todoId (Inl err :: 'b settled) (s', e') =
     (s'\<lparr>error := Some ''failed to delete todo'', isLoading := False\<rparr>,
      e'\<lparr>console := console e' @ [console_error (Caught err)]\<rparr>) \<and>
   toggleTodo_settle todo (Inl err) (s', e') =
     (s'\<lparr>error := Some ''failed to toggle todo'', isLoading := False\<rparr>,
      e'\<lparr>console := console e' @ [console_log (Caught err)]\<rparr>) \<and>
   length (sent (snd (fetchTodos o1 (s, e)))) = Suc (length (sent e)) \<and>
   length (sent (snd (addTodo todoName o2 (s, e)))) = Suc (length (sent e)) \<and>
   length (sent (snd (deleteTodo todoId o3 (s, e)))) = Suc (length (sent e)) \<and>
   length (sent (snd (toggleTodo todo o2 (s, e)))) = Suc (length (sent e))"
  by (simp add: fetchTodos_begin_eq addTodo_begin_eq deleteTodo_begin_eq toggleTodo_begin_eq
      fetchTodos_settle_Inl addTodo_settle_Inl deleteTodo_settle_Inl toggleTodo_settle_Inl
      fetchTodos_eq addTodo_eq deleteTodo_eq toggleTodo_eq
      fetchTodos_settle_sent addTodo_settle_sent deleteTodo_settle_sent toggleTodo_settle_sent
      todoApi_fetchTodos_eq todoApi_createTodo_eq todoApi_deleteTodo_eq todoApi_toggleTodo_eq)

theorem useTodos_failure_sets_error_only_witness:
  "error (fst (snd (addTodo_begin ''eggs'' (Inl (TypeError ''Failed to fetch''))
       (\<lparr>todos = [], isLoading = False, error = Some ''failed to load todos''\<rparr>, env0)))) = None \<and>
   addTodo_settle (Inl (Rejected (TypeError ''Failed to fetch'')))
       (\<lparr>todos = [mk_todo 1 ''milk'' False], isLoading = True, error = None\<rparr>, env0) =
     (\<lparr>todos = [mk_todo 1 ''milk'' False], isLoading = False,
        error = Some ''failed to add todos''\<rparr>,
      \<lparr>console = [console_error (Caught (Rejected (TypeError ''Failed to fetch'')))],
        sent = []\<rparr>)"
  using useTodos_failure_sets_error_only
    [where ?o1.0 = "Inl (TypeError ''Failed to fetch'')"
       and ?o2.0 = "Inl (TypeError ''Failed to fetch'')"
       and ?o3.0 = "Inl (TypeError ''Failed to fetch'') :: unit fetch_outcome"
       and s = "\<lparr>todos = [], isLoading = False, error = Some ''failed to load todos''\<rparr>"
       and e = env0 and todoName = "''eggs''" and todoId = 1
       and todo = "mk_todo 1 ''milk'' False"
       and err = "Rejected (TypeError ''Failed to fetch'')"
       and s' = "\<lparr>todos = [mk_todo 1 ''milk'' False], isLoading = True, error = None\<rparr>"
       and e' = env0 and todos_closure = "[]"]
  by (simp add: env0_def)

text \<open>
  Claim C4, as amended. \<open>handleResponse\<close> throws an \<open>APIError\<close> exactly when \<open>response.ok\<close> is
  false, and its message is then \<open>API failed\<close> followed by the status code. When
  \<open>response.ok\<close> is true it settles as \<open>response.json()\<close> does: it returns the parsed body
  when the body parses and rejects with the parser's error otherwise. Each of the five
  \<open>todoApi\<close> operations settles as \<open>handleResponse\<close> does on the response \<open>fetch\<close> resolved
  with, and rejects with the error of \<open>fetch\<close> when \<open>fetch\<close> rejects.
\<close>

theorem handleResponse_rule:
  "((\<exists>m. handleResponse response = Inl (APIError m)) \<longleftrightarrow> \<not> ok response) \<and>
   (handleResponse response = Inl (APIError (''API failed '' @ string_of_nat (status response)))
      \<longleftrightarrow> \<not> ok response) \<and>
   (handleResponse response = Inr v \<longleftrightarrow> ok response \<and> json response = Inr v) \<and>
   (handleResponse response = Inl (Rejected j) \<longleftrightarrow> ok response \<and> json response = Inl j) \<and>
   fst (todoApi_fetchTodos (Inr r1) e) = handleResponse r1 \<and>
   fst (todoApi_createTodo newTodo (Inr r2) e) = handleResponse r2 \<and>
   fst (todoApi_fetchTodo todoId (Inr r3) e) = handleResponse r3 \<and>
   fst (todoApi_deleteTodo todoId (Inr r4) e) = handleResponse r4 \<and>
   fst (todoApi_toggleTodo todoId isCompleted (Inr r5) e) = handleResponse r5 \<and>
   fst (todoApi_fetchTodos (Inl j) e) = Inl (Rejected j) \<and>
   fst (todoApi_createTodo newTodo (Inl j) e) = Inl (Rejected j) \<and>
   fst (todoApi_fetchTodo todoId (Inl j) e) = Inl (Rejected j) \<and>
   fst (todoApi_deleteTodo todoId (Inl j) e) = (Inl (Rejected j) :: 'b settled) \<and>
   fst (todoApi_toggleTodo todoId isCompleted (Inl j) e) = Inl (Rejected j)"
  by (auto simp add: handleResponse_def await_response_def todoApi_fetchTodos_eq
       todoApi_createTodo_eq todoApi_fetchTodo_eq todoApi_deleteTodo_eq todoApi_toggleTodo_eq
       split: sum.splits)

theorem handleResponse_rule_witness:
  "handleResponse \<lparr>ok = False, status = 404, json = Inr (0::nat)\<rparr> = Inl (APIError ''API failed 404'') \<and>
   handleResponse \<lparr>ok = True, status = 200, json = Inr (7::nat)\<rparr> = Inr 7"
proof -
  have d: "string_of_nat 404 = ''404''" by code_simp
  have "handleResponse \<lparr>ok = False, status = 404, json = Inr (0::nat)\<rparr>
          = Inl (APIError (''API failed '' @ string_of_nat 404))"
    using handleResponse_rule [THEN conjunct2, THEN conjunct1,
        of "\<lparr>ok = False, status = 404, json = Inr (0::nat)\<rparr>"]
    by simp
  moreover have "handleResponse \<lparr>ok = True, status = 200, json = Inr (7::nat)\<rparr> = Inr 7"
    using handleResponse_rule [THEN conjunct2, THEN conjunct2, THEN conjunct1,
        of "\<lparr>ok = True, status = 200, json = Inr (7::nat)\<rparr>" 7]
    by simp
  ultimately show ?thesis by (simp add: d)
qed

text \<open>
  The claim as first stated (the parsed body is returned exactly when \<open>response.ok\<close> is
  true) fails on a response with \<open>ok\<close> true whose body is empty: \<open>response.json()\<close>
  rejects, and so does \<open>handleResponse\<close>.
\<close>

theorem handleResponse_ok_throws_counterexample:
  "ok empty_body_response \<and>
   handleResponse empty_body_response =
     Inl (Rejected (SyntaxError ''Unexpected end of JSON input''))"
  by (simp add: empty_body_response_def handleResponse_def)

text \<open>
  Claim C5. The hook keeps \<open>todos\<close>, a boolean \<open>isLoading\<close> and a string-or-null \<open>error\<close>, and
  its four operations wrap \<open>todoApi.fetchTodos\<close>, \<open>createTodo\<close>, \<open>deleteTodo\<close> and
  \<open>toggleTodo\<close>: the part before the \<open>await\<close> gives the result and the request of that API
  call. \<open>isLoading\<close> is true while the call is pending and false once the operation has
  settled, on success and on failure.
\<close>

theorem useTodos_isLoading:
  "isLoading (fst (snd (fetchTodos_begin o1 (s, e)))) \<and>
   isLoading (fst (snd (addTodo_begin todoName o2 (s, e)))) \<and>
   isLoading (fst (snd (deleteTodo_begin todoId (o3 :: 'b fetch_outcome) (s, e)))) \<and>
   isLoading (fst (snd (toggleTodo_begin todo o2 (s, e)))) \<and>
   \<not> isLoading (fst (fetchTodos_settle r1 (s', e'))) \<and>
   \<not> isLoading (fst (addTodo_settle r2 (s', e'))) \<and>
   \<not> isLoading (fst (deleteTodo_settle todos_closure todoId (r3 :: 'b settled) (s', e'))) \<and>
   \<not> isLoading (fst (toggleTodo_settle todo r2 (s', e'))) \<and>
   \<not> isLoading (fst (fetchTodos o1 (s, e))) \<and>
   \<not> isLoading (fst (addTodo todoName o2 (s, e))) \<and>
   \<not> isLoading (fst (deleteTodo todoId o3 (s, e))) \<and>
   \<not> isLoading (fst (toggleTodo todo o2 (s, e))) \<and>
   (fst (fetchTodos_begin o1 (s, e)), snd (snd (fetchTodos_begin o1 (s, e)))) =
     todoApi_fetchTodos o1 e \<and>
   (fst (addTodo_begin todoName o2 (s, e)), snd (snd (addTodo_begin todoName o2 (s, e)))) =
     todoApi_createTodo todoName o2 e \<and>
   (fst (deleteTodo_begin todoId o3 (s, e)), snd (snd (deleteTodo_begin todoId o3 (s, e)))) =
     todoApi_deleteTodo todoId o3 e \<and>
   (fst (toggleTodo_begin todo o2 (s, e)), snd (snd (toggleTodo_begin todo o2 (s, e)))) =
     todoApi_toggleTodo (id' todo) (\<not> completed todo) o2 e"
  by (simp add: fetchTodos_begin_eq addTodo_begin_eq deleteTodo_begin_eq toggleTodo_begin_eq
      fetchTodos_eq addTodo_eq deleteTodo_eq toggleTodo_eq
      fetchTodos_settle_isLoading addTodo_settle_isLoading deleteTodo_settle_isLoading
      toggleTodo_settle_isLoading)

theorem useTodos_isLoading_witness:
  "isLoading (fst (snd (toggleTodo_begin (mk_todo 1 ''milk'' False)
       (Inr (ok_response (mk_todo 1 ''milk'' True))) (idle [mk_todo 1 ''milk'' False], env0)))) \<and>
   \<not> isLoading (fst (toggleTodo (mk_todo 1 ''milk'' False)
       (Inr (ok_response (mk_todo 1 ''milk'' True))) (idle [mk_todo 1 ''milk'' False], env0))) \<and>
   \<not> isLoading (fst (toggleTodo (mk_todo 1 ''milk'' False)
       (Inl (TypeError ''Failed to fetch'')) (idle [mk_todo 1 ''milk'' False], env0)))"
  using useTodos_isLoading
    [where ?o1.0 = "Inl (TypeError ''Failed to fetch'')"
       and ?o2.0 = "Inr (ok_response (mk_todo 1 ''milk'' True))"
       and ?o3.0 = "Inl (TypeError ''Failed to fetch'') :: unit fetch_outcome"
       and s = "idle [mk_todo 1 ''milk'' False]" and e = env0
       and todoName = "''eggs''" and todoId = 1 and todo = "mk_todo 1 ''milk'' False"
       and ?r1.0 = "Inr []" and ?r2.0 = "Inr (mk_todo 1 ''milk'' True)" and ?r3.0 = "Inr ()"
       and s' = "idle []" and e' = env0 and todos_closure = "[]"]
    useTodos_isLoading
    [where ?o1.0 = "Inl (TypeError ''Failed to fetch'')"
       and ?o2.0 = "Inl (TypeError ''Failed to fetch'')"
       and ?o3.0 = "Inl (TypeError ''Failed to fetch'') :: unit fetch_outcome"
       and s = "idle [mk_todo 1 ''milk'' False]" and e = env0
       and todoName = "''eggs''" and todoId = 1 and todo = "mk_todo 1 ''milk'' False"
       and ?r1.0 = "Inr []" and ?r2.0 = "Inr (mk_todo 1 ''milk'' True)" and ?r3.0 = "Inr ()"
       and s' = "idle []" and e' = env0 and todos_closure = "[]"]
  by simp



text \<open>
  Claim C8. The updater of \<open>deleteTodo\<close> ignores its argument: whatever the list is when the
  call settles, the new list is the list captured by the closure without the todos of the
  given id, in the same order; for a call made from the render of the current state that
  is the list at the time of the call. The updaters of \<open>addTodo\<close> and \<open>toggleTodo\<close> are
  functions of the previous list.
\<close>

theorem deleteTodo_filters_snapshot:
  "deleteTodo_updater todos_closure todoId prevTodos =
     filter (\<lambda>todo. id' todo \<noteq> todoId) todos_closure \<and>
   todos (fst (deleteTodo_settle todos_closure todoId (Inr v) (s', e'))) =
     filter (\<lambda>todo. id' todo \<noteq> todoId) todos_closure \<and>
   (ok response \<and> json response = Inr v \<longrightarrow>
      todos (fst (deleteTodo todoId (Inr response) (s, e))) =
        filter (\<lambda>todo. id' todo \<noteq> todoId) (todos s)) \<and>
   addTodo_updater newTodo prevTodos = prevTodos @ [newTodo] \<and>
   todos (fst (addTodo_settle (Inr newTodo) (s', e'))) = todos s' @ [newTodo] \<and>
   toggleTodo_updater todo updatedTodo prevTodos =
     map (\<lambda>prevTodo. if id' prevTodo = id' todo then updatedTodo else prevTodo) prevTodos \<and>
   todos (fst (toggleTodo_settle todo (Inr updatedTodo) (s', e'))) =
     map (\<lambda>prevTodo. if id' prevTodo = id' todo then updatedTodo else prevTodo) (todos s')"
  by (simp add: deleteTodo_updater_def addTodo_updater_def toggleTodo_updater_def
      deleteTodo_settle_Inr addTodo_settle_Inr toggleTodo_settle_Inr deleteTodo_eq
      todoApi_deleteTodo_eq await_response_ok)

theorem deleteTodo_filters_snapshot_witness:
  "ok (ok_response ()) \<and> json (ok_response ()) = Inr () \<and>
   todos (fst (deleteTodo 1 (Inr (ok_response ()))
       (idle [mk_todo 1 ''milk'' False, mk_todo 2 ''eggs'' False], env0))) =
     [mk_todo 2 ''eggs'' False] \<and>
   todos (fst (deleteTodo_settle [mk_todo 1 ''milk'' False, mk_todo 2 ''eggs'' False] 1 (Inr ())
       (\<lparr>todos = [mk_todo 1 ''milk'' False, mk_todo 2 ''eggs'' False, mk_todo 3 ''tea'' False],
          isLoading = True, error = None\<rparr>, env0))) =
     [mk_todo 2 ''eggs'' False]"
  using deleteTodo_filters_snapshot
    [where todos_closure = "[mk_todo 1 ''milk'' False, mk_todo 2 ''eggs'' False]"
       and todoId = 1 and prevTodos = "[]" and v = "()"
       and s' = "\<lparr>todos = [mk_todo 1 ''milk'' False, mk_todo 2 ''eggs'' False,
                     mk_todo 3 ''tea'' False], isLoading = True, error = None\<rparr>"
       and e' = env0 and response = "ok_response ()"
       and s = "idle [mk_todo 1 ''milk'' False, mk_todo 2 ''eggs'' False]" and e = env0
       and newTodo = "mk_todo 3 ''tea'' False" and todo = "mk_todo 1 ''milk'' False"
       and updatedTodo = "mk_todo 1 ''milk'' True"]
  by (simp add: ok_response_def idle_def mk_todo_def)

text \<open>
  Claim C9. When the API call of \<open>addTodo\<close>, \<open>deleteTodo\<close> or \<open>toggleTodo\<close> throws, the list is
  left as it was: neither the part before the \<open>await\<close> nor the \<open>catch\<close> path touches it, and
  after a whole failed call the state differs from the state before the call only in
  \<open>error\<close> and \<open>isLoading\<close>.
\<close>

theorem failure_keeps_todos:
  "(fst (addTodo_begin todoName o2 (s, e)) = Inl err \<longrightarrow>
      fst (addTodo todoName o2 (s, e)) =
        s\<lparr>error := Some ''failed to add todos'', isLoading := False\<rparr>) \<and>
   (fst (deleteTodo_begin todoId o3 (s, e)) = (Inl err :: 'b settled) \<longrightarrow>
      fst (deleteTodo todoId o3 (s, e)) =
        s\<lparr>error := Some ''failed to delete todo'', isLoading := False\<rparr>) \<and>
   (fst (toggleTodo_begin todo o2 (s, e)) = Inl err \<longrightarrow>
      fst (toggleTodo todo o2 (s, e)) =
        s\<lparr>error := Some ''failed to toggle todo'', isLoading := False\<rparr>) \<and>
   todos (fst (snd (addTodo_begin todoName o2 (s, e)))) = todos s \<and>
   todos (fst (snd (deleteTodo_begin todoId o3 (s, e)))) = todos s \<and>
   todos (fst (snd (toggleTodo_begin todo o2 (s, e)))) = todos s \<and>
   todos (fst (addTodo_settle (Inl err) (s', e'))) = todos s' \<and>
   todos (fst (deleteTodo_settle todos_closure todoId (Inl err :: 'b settled) (s', e'))) = todos s' \<and>
   todos (fst (toggleTodo_settle todo (Inl err) (s', e'))) = todos s'"
  by (simp add: addTodo_begin_eq deleteTodo_begin_eq toggleTodo_begin_eq
      addTodo_eq deleteTodo_eq toggleTodo_eq
      addTodo_settle_Inl deleteTodo_settle_Inl toggleTodo_settle_Inl)

theorem failure_keeps_todos_witness:
  "fst (addTodo_begin ''eggs'' (Inl (TypeError ''Failed to fetch''))
       (idle [mk_todo 1 ''milk'' False], env0)) = Inl (Rejected (TypeError ''Failed to fetch'')) \<and>
   fst (addTodo ''eggs'' (Inl (TypeError ''Failed to fetch''))
       (idle [mk_todo 1 ''milk'' False], env0)) =
     \<lparr>todos = [mk_todo 1 ''milk'' False], isLoading = False,
       error = Some ''failed to add todos''\<rparr>"
proof -
  have h: "fst (addTodo_begin ''eggs'' (Inl (TypeError ''Failed to fetch''))
       (idle [mk_todo 1 ''milk'' False], env0)) = Inl (Rejected (TypeError ''Failed to fetch''))"
    by (simp add: addTodo_begin_eq todoApi_createTodo_eq await_response_def)
  show ?thesis
    using h failure_keeps_todos [where todoName = "''eggs''"
          and ?o2.0 = "Inl (TypeError ''Failed to fetch'')"
          and s = "idle [mk_todo 1 ''milk'' False]" and e = env0
          and err = "Rejected (TypeError ''Failed to fetch'')", THEN conjunct1]
    by (simp add: idle_def)
qed

text \<open>
  Claim C10. \<open>useTodoContext\<close> throws (an \<open>Error\<close>) exactly when the value \<open>useContext\<close> reads
  is \<open>undefined\<close>, which is the case outside any provider, the default being \<open>undefined\<close>;
  otherwise it returns that value, and inside a \<open>TodoProvider\<close> that is the provider's state.
\<close>

theorem useTodoContext_rule:
  "((\<exists>err. useTodoContext (providers :: 'c option list) = Inl err) \<longleftrightarrow>
      useContext TodosContext_default providers = None) \<and>
   (useTodoContext providers = Inl (Error ''nejakej error'') \<longleftrightarrow>
      useContext TodosContext_default providers = None) \<and>
   (useTodoContext providers = Inr c \<longleftrightarrow>
      useContext TodosContext_default providers = Some c) \<and>
   useTodoContext ([] :: 'c option list) = Inl (Error ''nejakej error'') \<and>
   useTodoContext (TodoProvider c providers) = Inr c"
proof -
  have outside: "useTodoContext ([] :: 'c option list) = Inl (Error ''nejakej error'')"
    by (simp add: useTodoContext_def TodosContext_default_def)
  have inside: "useTodoContext (TodoProvider c providers) = Inr c"
    by (simp add: useTodoContext_def TodoProvider_def)
  have rule:
    "((\<exists>err. useTodoContext providers = Inl err) \<longleftrightarrow>
        useContext TodosContext_default providers = None) \<and>
     (useTodoContext providers = Inl (Error ''nejakej error'') \<longleftrightarrow>
        useContext TodosContext_default providers = None) \<and>
     (useTodoContext providers = Inr c \<longleftrightarrow>
        useContext TodosContext_default providers = Some c)"
  proof (cases "useContext TodosContext_default providers")
    case None
    then have "useTodoContext providers = Inl (Error ''nejakej error'')"
      by (simp add: useTodoContext_def)
    with None show ?thesis by simp
  next
    case (Some ctx)
    then have "useTodoContext providers = Inr ctx"
      by (simp add: useTodoContext_def)
    with Some show ?thesis by simp
  qed
  from rule outside inside show ?thesis by simp
qed

theorem useTodoContext_rule_witness:
  "useTodoContext ([] :: hook_state option list) = Inl (Error ''nejakej error'') \<and>
   useTodoContext [Some initial_state] = Inr initial_state \<and>
   useTodoContext [None, Some initial_state] = Inl (Error ''nejakej error'')"
  using useTodoContext_rule [of "[] :: hook_state option list" initial_state]
    useTodoContext_rule [of "[Some initial_state]" initial_state]
    useTodoContext_rule [of "[None, Some initial_state]" initial_state]
  by simp

end
